theory Spec2Isabelle
  imports Main "HOL-Library.Char_ord" "HOL-Library.Word"
begin

section \<open>Token model\<close>

text \<open>
  Modelled from the spec: the enumeration \<open>TokenType\<close> is declared in \<open>lexer.hpp\<close>,
  which is not among the sources. The spec has the kind of a token "drawn from a closed
  enumeration covering operators, punctuation, keywords, and literal kinds"; the
  constructors are the kinds the lexer names, in its two tables and in its calls of
  \<open>add_token\<close>. They keep the names of the source; \<open>If\<close> and \<open>Union\<close> carry the
  suffix \<open>_tok\<close> because HOL already has constants of these names.
\<close>

datatype (plugins only:) TokenType =
    Increment | Decrement | RightArrow | Assign | Plus | Minus | Times | Divide | Percent
  | PlusAssign | MinusAssign | TimesAssign | DivideAssign | ModuloAssign
  | GreaterThan | LessThan | GreaterEqual | LessEqual | EqualsTo | NotEqualTo
  | LogicalNot | LogicalAnd | LogicalOr
  | BitwiseNot | BitwiseAnd | BitwiseOr | BitwiseXor
  | BitwiseAndAssign | BitwiseOrAssign | BitwiseXorAssign
  | BitwiseRightShift | BitwiseLeftShift | BitwiseRightShiftAssign | BitwiseLeftShiftAssign
  | LeftParen | RightParen | LeftBraces | RightBraces | LeftCurlyBraces | RightCurlyBraces
  | StringMark | CharMark | Dot | Comma | Colon | Semicolon | QuestionMark
  | If_tok | Else | For | While | Do | Typedef | Break | Case | Continue | Default | Enum
  | Extern | Goto | Inline | Register | Restrict | Return | Sizeof | Static | Auto | Struct
  | Switch | Union_tok
  | CharType | ShortType | IntType | LongType | FloatType | DoubleType | VoidType
  | Signed | Unsigned | Volatile | Const
  | Identifier | CharConstant | StringConstant | IntegerConstant | FloatConstant

text \<open>
  A \<open>string_view\<close> is a pointer into the source buffer and a byte count. Pointers are
  offsets into the buffer, so a view is the pair of its first offset and its size; nothing
  in the type keeps a view inside the buffer it refers to.
\<close>

record string_view =
  sv_data :: nat
  sv_size :: nat

definition sv_begin :: "string_view \<Rightarrow> nat" where
  "sv_begin v = sv_data v"

definition sv_end :: "string_view \<Rightarrow> nat" where
  "sv_end v = sv_data v + sv_size v"

text \<open>The bytes a view denotes, for a view that lies inside the buffer.\<close>

definition sv_text :: "string \<Rightarrow> string_view \<Rightarrow> string" where
  "sv_text buf v = take (sv_size v) (drop (sv_data v) buf)"

definition sv_in_bounds :: "string \<Rightarrow> string_view \<Rightarrow> bool" where
  "sv_in_bounds buf v = (sv_end v \<le> length buf)"

text \<open>
  Modelled from the spec: \<open>TokenData\<close> is declared in \<open>lexer.hpp\<close> as well. The spec
  has a token as a kind and a byte span into the source buffer; the lexer builds one from
  a \<open>TokenType\<close> and a \<open>string_view\<close>.
\<close>

record TokenData =
  tok_type :: TokenType
  tok_data :: string_view

definition mk_token :: "TokenType \<Rightarrow> nat \<Rightarrow> nat \<Rightarrow> TokenData" where
  "mk_token t b n = \<lparr>tok_type = t, tok_data = \<lparr>sv_data = b, sv_size = n\<rparr>\<rparr>"

section \<open>Symbol and keyword tables\<close>

definition TOKEN_SYMBOLS :: "(TokenType \<times> string) list" where
  "TOKEN_SYMBOLS =
    [(Increment, ''++''), (Decrement, ''--''), (RightArrow, ''->''), (Assign, ''=''),
     (Plus, ''+''), (Minus, ''-''), (Times, ''*''), (Divide, ''/''), (Percent, ''%''),
     (PlusAssign, ''+=''), (MinusAssign, ''-=''), (TimesAssign, ''*=''),
     (DivideAssign, ''/=''), (ModuloAssign, ''%=''),
     (GreaterThan, ''>''), (LessThan, ''<''), (GreaterEqual, ''>=''), (LessEqual, ''<=''),
     (EqualsTo, ''==''), (NotEqualTo, ''!=''), (LogicalNot, ''!''),
     (LogicalAnd, ''&&''), (LogicalOr, ''||''),
     (BitwiseNot, ''~''), (BitwiseAnd, ''&''), (BitwiseOr, ''|''), (BitwiseXor, ''^''),
     (BitwiseAndAssign, ''&=''), (BitwiseOrAssign, ''|=''), (BitwiseXorAssign, ''^=''),
     (BitwiseRightShift, ''>>''), (BitwiseLeftShift, ''<<''),
     (BitwiseRightShiftAssign, ''>>=''), (BitwiseLeftShiftAssign, ''<<=''),
     (LeftParen, ''(''), (RightParen, '')''), (LeftBraces, ''[''), (RightBraces, '']''),
     (LeftCurlyBraces, ''{''), (RightCurlyBraces, ''}''),
     (StringMark, [CHR 0x22]), (CharMark, [CHR 0x27]), (Dot, ''.''), (Comma, '',''),
     (Colon, '':''), (Semicolon, '';''), (QuestionMark, ''?'')]"

definition TOKEN_RESERVED_NAMES :: "(TokenType \<times> string) list" where
  "TOKEN_RESERVED_NAMES =
    [(If_tok, ''if''), (Else, ''else''), (For, ''for''), (While, ''while''), (Do, ''do''),
     (Typedef, ''typedef''), (Break, ''break''), (Case, ''case''),
     (Continue, ''continue''), (Default, ''default''), (Enum, ''enum''),
     (Extern, ''extern''), (Goto, ''goto''), (Inline, ''inline''),
     (Register, ''register''), (Restrict, ''restrict''), (Return, ''return''),
     (Sizeof, ''sizeof''), (Static, ''static''), (Auto, ''auto''), (Struct, ''struct''),
     (Switch, ''switch''), (Union_tok, ''union''),
     (CharType, ''char''), (ShortType, ''short''), (IntType, ''int''), (LongType, ''long''),
     (FloatType, ''float''), (DoubleType, ''double''), (VoidType, ''void''),
     (Signed, ''signed''), (Unsigned, ''unsigned''), (Volatile, ''volatile''),
     (Const, ''const'')]"

section \<open>Character classifier\<close>

definition is_special :: "char \<Rightarrow> bool" where
  "is_special c =
    (c = CHR ''='' \<or> c = CHR ''+'' \<or> c = CHR ''-'' \<or> c = CHR ''*'' \<or> c = CHR ''/'' \<or>
     c = CHR ''%'' \<or> c = CHR ''>'' \<or> c = CHR ''<'' \<or> c = CHR ''!'' \<or> c = CHR ''&'' \<or>
     c = CHR ''|'' \<or> c = CHR ''~'' \<or> c = CHR ''^'' \<or> c = CHR ''('' \<or> c = CHR '')'' \<or>
     c = CHR ''['' \<or> c = CHR '']'' \<or> c = CHR ''{'' \<or> c = CHR ''}'' \<or>
     c = CHR '','' \<or> c = CHR '':'' \<or> c = CHR '';'' \<or> c = CHR ''?'')"

definition is_space :: "char \<Rightarrow> bool" where
  "is_space c = (c = CHR '' '' \<or> c = CHR 0x09)"

definition is_white :: "char \<Rightarrow> bool" where
  "is_white c = (is_space c \<or> is_special c)"

definition is_digit :: "char \<Rightarrow> bool" where
  "is_digit c = (CHR ''0'' \<le> c \<and> c \<le> CHR ''9'')"

definition is_hexdigit :: "char \<Rightarrow> bool" where
  "is_hexdigit c =
    (is_digit c \<or> (CHR ''A'' \<le> c \<and> c \<le> CHR ''F'') \<or> (CHR ''a'' \<le> c \<and> c \<le> CHR ''f''))"

definition is_octdigit :: "char \<Rightarrow> bool" where
  "is_octdigit c = (CHR ''0'' \<le> c \<and> c \<le> CHR ''7'')"

definition is_alpha :: "char \<Rightarrow> bool" where
  "is_alpha c =
    ((CHR ''A'' \<le> c \<and> c \<le> CHR ''Z'') \<or> (CHR ''a'' \<le> c \<and> c \<le> CHR ''z'') \<or> c = CHR ''_'')"

definition is_alphanum :: "char \<Rightarrow> bool" where
  "is_alphanum c = (is_alpha c \<or> is_digit c)"

definition is_constant :: "char \<Rightarrow> bool" where
  "is_constant c = (is_digit c \<or> c = CHR 0x27 \<or> c = CHR 0x22)"

section \<open>Searching the buffer\<close>

text \<open>
  \<open>std::find_if (first, last, pred)\<close> on offsets of the buffer: the first offset in
  \<open>[first, last)\<close> whose byte satisfies the predicate, and \<open>last\<close> when there is none.
  The scan reads the bytes of \<open>[first, last)\<close> only.
\<close>

definition find_if :: "string \<Rightarrow> nat \<Rightarrow> nat \<Rightarrow> (char \<Rightarrow> bool) \<Rightarrow> nat" where
  "find_if buf first lst pred =
    first + length (takeWhile (\<lambda>c. \<not> pred c) (take (lst - first) (drop first buf)))"

definition find_if_not :: "string \<Rightarrow> nat \<Rightarrow> nat \<Rightarrow> (char \<Rightarrow> bool) \<Rightarrow> nat" where
  "find_if_not buf first lst pred = find_if buf first lst (\<lambda>c. \<not> pred c)"

definition find_next_token_if ::
  "string \<Rightarrow> nat \<Rightarrow> nat \<Rightarrow> (char \<Rightarrow> bool) \<Rightarrow> string_view option" where
  "find_next_token_if buf begin_p end_p pred =
    (let first = find_if buf begin_p end_p pred;
         lst = find_if_not buf first end_p pred
     in if first \<noteq> end_p then Some \<lparr>sv_data = first, sv_size = lst - first\<rparr> else None)"

definition find_next_token :: "string \<Rightarrow> nat \<Rightarrow> nat \<Rightarrow> string_view option" where
  "find_next_token buf begin_p end_p = find_next_token_if buf begin_p end_p (\<lambda>c. \<not> is_white c)"

section \<open>Lexer context and faults\<close>

text \<open>
  The scanning routines return a cursor, and they can leave the well-defined part of the
  language: a failed \<open>assert\<close>, \<open>value()\<close> on an empty optional, or a read of a byte
  that is not in the buffer. Each is a value of \<open>fault\<close>; a routine returns
  \<open>Inl\<close> of the fault or \<open>Inr\<close> of the updated context and the new cursor.
\<close>

datatype fault = AssertionFailed | BadOptionalAccess | OutOfBounds

record LexerContext =
  tokens :: "TokenData list"

definition add_token :: "LexerContext \<Rightarrow> TokenType \<Rightarrow> string_view \<Rightarrow> LexerContext" where
  "add_token lexer t source = lexer\<lparr>tokens := tokens lexer @ [\<lparr>tok_type = t, tok_data = source\<rparr>]\<rparr>"

definition is_token :: "string \<Rightarrow> nat \<Rightarrow> nat \<Rightarrow> string \<Rightarrow> bool" where
  "is_token buf begin_p end_p tok = (take (end_p - begin_p) (drop begin_p buf) = tok)"

section \<open>Character and string literals\<close>

text \<open>
  The byte count of a character literal: the bytes of \<open>token.substr(1, size - 1)\<close>
  (everything after the opening quote, the closing quote included) that are not a
  backslash. The routine computes it and uses it only to guard an \<open>assert(true)\<close>.
  When the token reaches past the buffer (no closing quote was found), the count reads the
  byte at \<open>end\<close>; the routine below ends with \<open>OutOfBounds\<close> there.
\<close>

definition char_size_in_bytes :: "string \<Rightarrow> string_view \<Rightarrow> nat" where
  "char_size_in_bytes buf token =
    length (filter (\<lambda>c. c \<noteq> CHR 0x5C)
      (sv_text buf \<lparr>sv_data = sv_data token + 1, sv_size = sv_size token - 1\<rparr>))"

definition lexer_parse_char_literal ::
  "LexerContext \<Rightarrow> string \<Rightarrow> nat \<Rightarrow> nat \<Rightarrow> fault + (LexerContext \<times> nat)" where
  "lexer_parse_char_literal lexer buf begin_p end_p =
    (if begin_p = end_p then Inr (lexer, end_p)
     else
       let first = find_if buf begin_p end_p (\<lambda>c. c = CHR 0x27) in
       if first = end_p then Inl AssertionFailed
       else
         let lst = find_if buf (Suc first) end_p (\<lambda>c. c = CHR 0x27);
             token = \<lparr>sv_data = first, sv_size = Suc lst - first\<rparr>
         in
           if sv_end token = end_p then Inr (lexer, find_if buf (sv_begin token) end_p is_white)
           else if sv_size token = 2 then Inr (lexer, sv_end token)
           else if \<not> sv_in_bounds buf token then Inl OutOfBounds
           else
             let count = char_size_in_bytes buf token
             in Inr (add_token lexer CharConstant token, sv_end token))"

definition lexer_parse_string_literal ::
  "LexerContext \<Rightarrow> string \<Rightarrow> nat \<Rightarrow> nat \<Rightarrow> fault + (LexerContext \<times> nat)" where
  "lexer_parse_string_literal lexer buf begin_p end_p =
    (if begin_p = end_p then Inr (lexer, end_p)
     else
       let first = find_if buf begin_p end_p (\<lambda>c. c = CHR 0x22) in
       if first = end_p then Inl AssertionFailed
       else
         let lst = find_if buf (Suc first) end_p (\<lambda>c. c = CHR 0x22);
             token = \<lparr>sv_data = first, sv_size = Suc lst - first\<rparr>
         in
           if sv_end token = end_p then Inr (lexer, find_if buf (sv_begin token) end_p is_white)
           else if sv_size token = 2 then Inr (lexer, sv_end token)
           else Inr (add_token lexer StringConstant token, sv_end token))"

section \<open>Numeric constants\<close>

text \<open>
  The scan of \<open>is_integer\<close> leaves its loop in three ways: at the end of the run (the
  run is an integer), at a \<open>.\<close> (the branch commented "It might be a float constant,
  so stop and don't report anything"), and at any other byte (the branch commented
  "TODO report error message"). The last two both return \<open>false\<close>; the verdict keeps
  them apart.
\<close>

datatype integer_verdict = AllDigits | StoppedAtDot | InvalidDigit

fun integer_scan :: "bool \<Rightarrow> string \<Rightarrow> integer_verdict" where
  "integer_scan has_hex_prefix [] = AllDigits"
| "integer_scan has_hex_prefix (c # cs) =
    (if (if has_hex_prefix then is_hexdigit c else is_digit c) then integer_scan has_hex_prefix cs
     else if c = CHR ''.'' then StoppedAtDot
     else InvalidDigit)"

definition has_hex_prefix :: "string \<Rightarrow> bool" where
  "has_hex_prefix s =
    (length s > 2 \<and> s ! 0 = CHR ''0'' \<and> (s ! 1 = CHR ''x'' \<or> s ! 1 = CHR ''X''))"

definition integer_verdict_of :: "string \<Rightarrow> integer_verdict" where
  "integer_verdict_of s =
    (let hex = has_hex_prefix s
     in integer_scan hex (if hex then drop 2 s else s))"

definition is_integer :: "string \<Rightarrow> bool" where
  "is_integer s = (integer_verdict_of s = AllDigits)"

definition is_float :: "string \<Rightarrow> bool" where
  "is_float s =
    (let end_p = length s;
         dot_it = find_if s 0 end_p (\<lambda>c. c = CHR ''.'');
         f_suffix_it = find_if s dot_it end_p (\<lambda>c. c = CHR ''f'' \<or> c = CHR ''F'')
     in if f_suffix_it \<noteq> end_p \<and> Suc f_suffix_it \<noteq> end_p then False
        else list_all (\<lambda>i. i = dot_it \<or> i = f_suffix_it \<or> is_digit (s ! i)) [0..<end_p])"

definition lexer_parse_constant ::
  "LexerContext \<Rightarrow> string \<Rightarrow> nat \<Rightarrow> nat \<Rightarrow> fault + (LexerContext \<times> nat)" where
  "lexer_parse_constant lexer buf begin_p end_p =
    (if begin_p = end_p then Inr (lexer, end_p)
     else
       case find_next_token buf begin_p end_p of
         None \<Rightarrow> Inl BadOptionalAccess
       | Some token \<Rightarrow>
           if buf ! sv_data token = CHR 0x27 then lexer_parse_char_literal lexer buf begin_p end_p
           else if buf ! sv_data token = CHR 0x22 then
             lexer_parse_string_literal lexer buf begin_p end_p
           else if is_integer (sv_text buf token) then
             Inr (add_token lexer IntegerConstant token, sv_end token)
           else if is_float (sv_text buf token) then
             Inr (add_token lexer FloatConstant token, sv_end token)
           else Inr (lexer, sv_end token))"

section \<open>Identifiers and keywords\<close>

definition is_identifier :: "string \<Rightarrow> bool" where
  "is_identifier s = (if \<not> is_alpha (s ! 0) then False else list_all is_alphanum (tl s))"

text \<open>
  The loop over the reserved words has no \<open>break\<close>: it adds one token for every entry
  whose text equals the run, and sets the flag.
\<close>

definition reserved_step ::
  "string \<Rightarrow> string_view \<Rightarrow> TokenType \<times> string \<Rightarrow> LexerContext \<times> bool \<Rightarrow> LexerContext \<times> bool" where
  "reserved_step buf token name st =
    (if sv_text buf token = snd name then (add_token (fst st) (fst name) token, True) else st)"

definition lexer_parse_identifier ::
  "LexerContext \<Rightarrow> string \<Rightarrow> nat \<Rightarrow> nat \<Rightarrow> fault + (LexerContext \<times> nat)" where
  "lexer_parse_identifier lexer buf begin_p end_p =
    (if begin_p = end_p then Inr (lexer, end_p)
     else
       case find_next_token_if buf begin_p end_p is_alphanum of
         None \<Rightarrow> Inl BadOptionalAccess
       | Some token \<Rightarrow>
           if is_identifier (sv_text buf token) then
             let st = fold (reserved_step buf token) TOKEN_RESERVED_NAMES (lexer, False)
             in if \<not> snd st then Inr (add_token (fst st) Identifier token, sv_end token)
                else Inr (fst st, sv_end token)
           else Inr (lexer, sv_end token))"

text \<open>
  The reserved-word rule as the spec words it, to be compared with the loop above: the
  run's exact text is looked up in the reserved-word table; "on a match, emit the
  corresponding keyword token; otherwise emit a generic identifier token".
\<close>

definition reserved_lookup :: "string \<Rightarrow> TokenType option" where
  "reserved_lookup s = map_of (map (\<lambda>(k, t). (t, k)) TOKEN_RESERVED_NAMES) s"

definition spec_identifier_kind :: "string \<Rightarrow> TokenType" where
  "spec_identifier_kind s = (case reserved_lookup s of Some k \<Rightarrow> k | None \<Rightarrow> Identifier)"

section \<open>The tokenizer\<close>

text \<open>
  One iteration of the loop of \<open>lexer_tokenize_text\<close>, from the context and the cursor:
  \<open>Inl\<close> is the end of the loop (a fault, or the tokens returned), \<open>Inr\<close> the context
  and cursor of the next iteration. The loop runs while \<open>it != end\<close>; a cursor beyond
  \<open>end\<close> passes that test and the dispatch then reads a byte outside the buffer.
\<close>

definition lexer_step ::
  "string \<Rightarrow> LexerContext \<times> nat \<Rightarrow> (fault + TokenData list) + (LexerContext \<times> nat)" where
  "lexer_step buf st =
    (let lexer = fst st; it = snd st; end_p = length buf in
     if it = end_p then Inl (Inr (tokens lexer))
     else if it > end_p then Inl (Inl OutOfBounds)
     else if is_constant (buf ! it) then
       (case lexer_parse_constant lexer buf it end_p of
          Inl e \<Rightarrow> Inl (Inl e)
        | Inr st' \<Rightarrow> Inr st')
     else if is_alphanum (buf ! it) then
       (case lexer_parse_identifier lexer buf it end_p of
          Inl e \<Rightarrow> Inl (Inl e)
        | Inr st' \<Rightarrow> Inr st')
     else
       (case find_next_token buf it end_p of
          Some opt_token \<Rightarrow> Inr (lexer, sv_begin opt_token)
        | None \<Rightarrow> Inl (Inr (tokens lexer))))"

text \<open>
  The loop itself may not return, so it is a partial function: \<open>None\<close> is a run that
  never leaves the loop.
\<close>

partial_function (option) lexer_loop ::
  "string \<Rightarrow> LexerContext \<times> nat \<Rightarrow> (fault + TokenData list) option" where
  "lexer_loop buf st =
    (case lexer_step buf st of
       Inl r \<Rightarrow> Some r
     | Inr st' \<Rightarrow> lexer_loop buf st')"

definition lexer_tokenize_text :: "string \<Rightarrow> (fault + TokenData list) option" where
  "lexer_tokenize_text buf = lexer_loop buf (\<lparr>tokens = []\<rparr>, 0)"

section \<open>Expression nodes\<close>

datatype ExprValueKind = LValue | RValue

datatype ExprClass =
  IntegerLiteral | CharacterConstant | StringLiteral | ParenExpr | ArraySubscript | ImplicitCast

datatype CharacterConstantKind = CCK_Ascii | CCK_UTF16 | CCK_UTF32 | CCK_Wide

datatype StringLiteralKind = SK_Ascii | SK_UTF8 | SK_UTF16 | SK_UTF32 | SK_Wide

datatype CastKind = LValueToRValue | ArrayToPointerDecay | AtomicToNonAtomic

text \<open>
  Modelled from the spec: \<open>syntax::ByteSpan\<close> and \<open>syntax::ByteLoc\<close> are declared in
  \<open>cci/syntax/source_map.hpp\<close>, which is not among the sources. The spec calls a span
  a "byte range in the original source"; \<open>expr.hpp\<close> builds one from two locations and
  reads its members \<open>start\<close> and \<open>end\<close>. A location is a value of a type \<open>'loc\<close> left
  open; the factories need its \<open>+\<close> and its \<open>ByteLoc(1)\<close>, written \<open>1\<close>.
\<close>

record 'loc ByteSpan =
  span_start :: 'loc
  span_end :: 'loc

text \<open>
  A node is the \<open>Expr\<close> base (class tag, value category, type, source range) together
  with the members its own class adds. A child held through \<open>arena_ptr\<close> is the child
  node itself: nodes are immutable once built. The qualified type is a value of a type
  \<open>'ty\<close> left open, since \<open>QualType\<close> is declared in \<open>cci/ast/type.hpp\<close>.
\<close>

datatype ('ty, 'loc) Expr =
  Expr (ec: ExprClass) (vk: ExprValueKind) (ty: 'ty) (range': "'loc ByteSpan")
       (members: "('ty, 'loc) ExprMembers")
and ('ty, 'loc) ExprMembers =
    IntegerLiteral_members (val: "64 word")
  | CharacterConstant_members (char_val: "32 word") (cck: CharacterConstantKind)
  | StringLiteral_members (str_data: "8 word list") (sk: StringLiteralKind)
      (char_byte_width: nat) (tok_locs: "'loc list")
  | ParenExpr_members (inner_expr: "('ty, 'loc) Expr") (lparen_loc: 'loc) (rparen_loc: 'loc)
  | ArraySubscriptExpr_members (base: "('ty, 'loc) Expr") (idx: "('ty, 'loc) Expr")
      (lbracket_loc: 'loc)
  | ImplicitCastExpr_members (ck: CastKind) (operand: "('ty, 'loc) Expr")

definition expr_class :: "('ty, 'loc) Expr \<Rightarrow> ExprClass" where
  "expr_class e = ec e"

definition value_kind :: "('ty, 'loc) Expr \<Rightarrow> ExprValueKind" where
  "value_kind e = vk e"

definition expr_type :: "('ty, 'loc) Expr \<Rightarrow> 'ty" where
  "expr_type e = ty e"

definition begin_loc :: "('ty, 'loc) Expr \<Rightarrow> 'loc" where
  "begin_loc e = span_start (range' e)"

definition end_loc :: "('ty, 'loc) Expr \<Rightarrow> 'loc" where
  "end_loc e = span_end (range' e)"

definition source_span :: "('ty, 'loc) Expr \<Rightarrow> 'loc ByteSpan" where
  "source_span e = range' e"

definition is_lvalue :: "('ty, 'loc) Expr \<Rightarrow> bool" where
  "is_lvalue e = (LValue = vk e)"

definition is_rvalue :: "('ty, 'loc) Expr \<Rightarrow> bool" where
  "is_rvalue e = (RValue = vk e)"

definition sub_expr :: "('ty, 'loc) Expr \<Rightarrow> ('ty, 'loc) Expr" where
  "sub_expr e = inner_expr (members e)"

definition base_expr :: "('ty, 'loc) Expr \<Rightarrow> ('ty, 'loc) Expr" where
  "base_expr e = base (members e)"

definition index_expr :: "('ty, 'loc) Expr \<Rightarrow> ('ty, 'loc) Expr" where
  "index_expr e = idx (members e)"

subsection \<open>Factories\<close>

definition IntegerLiteral_create :: "64 word \<Rightarrow> 'ty \<Rightarrow> 'loc ByteSpan \<Rightarrow> ('ty, 'loc) Expr" where
  "IntegerLiteral_create v t src_span =
    Expr IntegerLiteral RValue t src_span (IntegerLiteral_members v)"

definition ParenExpr_create ::
  "('ty, 'loc::{plus,one}) Expr \<Rightarrow> 'loc \<Rightarrow> 'loc \<Rightarrow> ('ty, 'loc) Expr" where
  "ParenExpr_create inner lparen rparen =
    Expr ParenExpr (value_kind inner) (expr_type inner)
      \<lparr>span_start = lparen, span_end = rparen + 1\<rparr>
      (ParenExpr_members inner lparen rparen)"

datatype ast_fault = ContractViolation

text \<open>
  Modelled from the spec: the macro \<open>cci_expects\<close> is declared outside the sources. The
  spec has a violated factory precondition "fail the precondition check (internal fault),
  never silently succeed" and "abort compilation of the unit": a false condition ends the
  call with the fault, a true one lets it go on.
\<close>

definition cci_expects :: "bool \<Rightarrow> ast_fault + 'a \<Rightarrow> ast_fault + 'a" where
  "cci_expects cond rest = (if cond then rest else Inl ContractViolation)"

text \<open>
  \<open>e->type()->get_as<PointerType>() != nullptr\<close> asks whether the type of \<open>e\<close> is a
  pointer type; the test on types is the parameter \<open>is_pointer\<close>.
\<close>

definition ArraySubscriptExpr_create ::
  "('ty \<Rightarrow> bool) \<Rightarrow> ('ty, 'loc::{plus,one}) Expr \<Rightarrow> ('ty, 'loc) Expr \<Rightarrow> ExprValueKind \<Rightarrow> 'ty \<Rightarrow>
     'loc \<Rightarrow> 'loc \<Rightarrow> ast_fault + ('ty, 'loc) Expr" where
  "ArraySubscriptExpr_create is_pointer base_e index_e v t lbracket rbracket =
    cci_expects (is_pointer (expr_type base_e))
      (cci_expects (\<not> is_pointer (expr_type index_e))
        (Inr (Expr ArraySubscript v t
               \<lparr>span_start = begin_loc base_e, span_end = rbracket + 1\<rparr>
               (ArraySubscriptExpr_members base_e index_e lbracket))))"

section \<open>Evaluation of the model\<close>

lemmas classifier_defs =
  is_constant_def is_alphanum_def is_alpha_def is_digit_def is_hexdigit_def is_white_def
  is_space_def is_special_def

lemmas view_defs = sv_begin_def sv_end_def sv_text_def sv_in_bounds_def mk_token_def add_token_def

lemmas search_defs = find_next_token_def find_next_token_if_def find_if_def find_if_not_def

lemmas scan_defs =
  lexer_parse_constant_def lexer_parse_identifier_def lexer_parse_char_literal_def
  lexer_parse_string_literal_def is_integer_def is_float_def integer_verdict_of_def
  has_hex_prefix_def is_identifier_def reserved_step_def TOKEN_RESERVED_NAMES_def
  char_size_in_bytes_def

lemmas lexer_defs =
  lexer_tokenize_text_def lexer_step_def scan_defs search_defs view_defs classifier_defs

section \<open>Facts about the search\<close>

lemma find_if_at: "b < length buf \<Longrightarrow> P (buf ! b) \<Longrightarrow> find_if buf b (length buf) P = b"
  by (simp add: find_if_def Cons_nth_drop_Suc[symmetric])

lemma find_if_not_run:
  "find_if_not buf b (length buf) P = b + length (takeWhile P (drop b buf))"
  by (simp add: find_if_not_def find_if_def)

lemma find_next_token_if_at:
  assumes "b < length buf" "P (buf ! b)"
  shows "find_next_token_if buf b (length buf) P =
    Some \<lparr>sv_data = b, sv_size = length (takeWhile P (drop b buf))\<rparr>"
  using assms by (simp add: find_next_token_if_def find_if_at find_if_not_run Let_def)

lemma find_if_absent:
  assumes "b \<le> length buf" "\<forall>c \<in> set (drop b buf). \<not> P c"
  shows "find_if buf b (length buf) P = length buf"
proof -
  have tw: "takeWhile (\<lambda>c. \<not> P c) (drop b buf) = drop b buf"
    using assms(2) by simp
  show ?thesis
    using assms(1) by (simp add: find_if_def tw)
qed

section \<open>The empty input\<close>

text \<open>
  C10. Tokenizing the empty buffer returns the empty token sequence, and the loop ends at
  its first test, before any scanning routine is called. Each of the four scanning routines
  called with \<open>begin == end\<close> returns \<open>end\<close> and leaves the context as it was.
\<close>

theorem C10_empty_input:
  "lexer_tokenize_text [] = Some (Inr [])
   \<and> lexer_step [] (\<lparr>tokens = []\<rparr>, 0) = Inl (Inr [])
   \<and> lexer_parse_char_literal lexer buf e e = Inr (lexer, e)
   \<and> lexer_parse_string_literal lexer buf e e = Inr (lexer, e)
   \<and> lexer_parse_constant lexer buf e e = Inr (lexer, e)
   \<and> lexer_parse_identifier lexer buf e e = Inr (lexer, e)"
proof -
  have step: "lexer_step [] (\<lparr>tokens = []\<rparr>, 0) = Inl (Inr [])"
    by (simp add: lexer_step_def)
  have "lexer_tokenize_text [] = Some (Inr [])"
    by (simp add: lexer_tokenize_text_def lexer_loop.simps step)
  moreover have "lexer_parse_char_literal lexer buf e e = Inr (lexer, e)"
    by (simp add: lexer_parse_char_literal_def)
  moreover have "lexer_parse_string_literal lexer buf e e = Inr (lexer, e)"
    by (simp add: lexer_parse_string_literal_def)
  moreover have "lexer_parse_constant lexer buf e e = Inr (lexer, e)"
    by (simp add: lexer_parse_constant_def)
  moreover have "lexer_parse_identifier lexer buf e e = Inr (lexer, e)"
    by (simp add: lexer_parse_identifier_def)
  ultimately show ?thesis using step by simp
qed

section \<open>Operators and punctuation\<close>

lemma tokenize_shift_assign: "lexer_tokenize_text ''>>='' = Some (Inr [])"
  by (simp add: lexer_loop.simps lexer_defs)

lemma tokenize_a_shift_assign_3:
  "lexer_tokenize_text ''a>>=3'' =
     Some (Inr [mk_token Identifier 0 1, mk_token IntegerConstant 4 1])"
  by (simp add: lexer_loop.simps lexer_defs)

text \<open>
  C2, as the code has it. The loop of \<open>lexer_tokenize_text\<close> never consults
  \<open>TOKEN_SYMBOLS\<close>: the bytes of \<open>>>=\<close> are separators, skipped without a token.
  Tokenizing \<open>>>=\<close> yields no token, and tokenizing \<open>a>>=3\<close> yields exactly the two
  tokens Identifier (spanning \<open>a\<close>) and IntegerConstant (spanning \<open>3\<close>), in that order.
\<close>

theorem C2_no_symbol_tokens:
  "lexer_tokenize_text ''>>='' = Some (Inr [])
   \<and> lexer_tokenize_text ''a>>=3'' =
       Some (Inr [mk_token Identifier 0 1, mk_token IntegerConstant 4 1])
   \<and> sv_text ''a>>=3'' (tok_data (mk_token Identifier 0 1)) = ''a''
   \<and> sv_text ''a>>=3'' (tok_data (mk_token IntegerConstant 4 1)) = ''3''"
  using tokenize_shift_assign tokenize_a_shift_assign_3 by (simp add: view_defs)

text \<open>
  C2, as the claim states it, fails: the result for \<open>>>=\<close> is not the single token
  BitwiseRightShiftAssign, and the result for \<open>a>>=3\<close> is not the three tokens of the
  claim.
\<close>

theorem C2_longest_match_counterexample:
  "lexer_tokenize_text ''>>='' \<noteq> Some (Inr [mk_token BitwiseRightShiftAssign 0 3])
   \<and> lexer_tokenize_text ''a>>=3'' \<noteq>
       Some (Inr [mk_token Identifier 0 1, mk_token BitwiseRightShiftAssign 1 3,
                  mk_token IntegerConstant 4 1])"
  using tokenize_shift_assign tokenize_a_shift_assign_3 by simp

section \<open>Unknown characters\<close>

text \<open>
  A byte that starts no literal, is not alphanumeric and is not a separator is the first
  byte of the run \<open>find_next_token\<close> returns, so the third branch of the loop sets the
  cursor to where it already is.
\<close>

lemma lexer_step_stuck:
  assumes "\<not> is_constant c" "\<not> is_alphanum c" "\<not> is_white c"
  shows "lexer_step (c # rest) (lexer, 0) = Inr (lexer, 0)"
  using assms
  by (simp add: lexer_step_def find_next_token_def find_next_token_if_def find_if_def
      find_if_not_def sv_begin_def Let_def)

text \<open>A state that an iteration maps to itself is a state the loop never leaves.\<close>

lemma lexer_loop_fixed_point_diverges:
  assumes stuck: "lexer_step buf0 st0 = Inr st0"
  shows "lexer_loop buf0 st0 = None"
proof (cases "lexer_loop buf0 st0")
  case None
  then show ?thesis .
next
  case (Some r0)
  have "(buf0, st0) \<noteq> (buf0, st0)"
  proof (rule lexer_loop.raw_induct[where P="\<lambda>buf st r. (buf, st) \<noteq> (buf0, st0)", OF _ Some])
    fix loop buf st r
    assume IH: "\<And>b s y. loop b s = Some y \<Longrightarrow> (b, s) \<noteq> (buf0, st0)"
      and unfolded: "(case lexer_step buf st of Inl r \<Rightarrow> Some r | Inr st' \<Rightarrow> loop buf st') = Some r"
    show "(buf, st) \<noteq> (buf0, st0)"
    proof
      assume "(buf, st) = (buf0, st0)"
      with unfolded stuck have "loop buf0 st0 = Some r" by simp
      from IH[OF this] show False by simp
    qed
  qed
  then show ?thesis by simp
qed

text \<open>
  C3, at the inputs the claim names. On the one-byte buffer \<open>.\<close> the first iteration of
  the loop returns the state it started from, and the tokenizer does not return; the same
  holds for \<open>@\<close> and \<open>#\<close>.
\<close>

theorem C3_unknown_character_loops_forever:
  "lexer_step ''.'' (\<lparr>tokens = []\<rparr>, 0) = Inr (\<lparr>tokens = []\<rparr>, 0)
   \<and> lexer_tokenize_text ''.'' = None
   \<and> lexer_tokenize_text ''@'' = None
   \<and> lexer_tokenize_text ''#'' = None"
proof -
  have dot: "lexer_step ''.'' (\<lparr>tokens = []\<rparr>, 0) = Inr (\<lparr>tokens = []\<rparr>, 0)"
    by (rule lexer_step_stuck) (simp_all add: classifier_defs)
  have at: "lexer_step ''@'' (\<lparr>tokens = []\<rparr>, 0) = Inr (\<lparr>tokens = []\<rparr>, 0)"
    by (rule lexer_step_stuck) (simp_all add: classifier_defs)
  have hash: "lexer_step ''#'' (\<lparr>tokens = []\<rparr>, 0) = Inr (\<lparr>tokens = []\<rparr>, 0)"
    by (rule lexer_step_stuck) (simp_all add: classifier_defs)
  show ?thesis
    using dot lexer_loop_fixed_point_diverges[OF dot] lexer_loop_fixed_point_diverges[OF at]
      lexer_loop_fixed_point_diverges[OF hash]
    by (simp add: lexer_tokenize_text_def)
qed

section \<open>Character literals at the end of the buffer\<close>

text \<open>
  A literal with no closing quote never reaches the branch written for it: the search for
  the closing quote returns \<open>end\<close>, the token is taken to end one past it, and the test
  \<open>token.end() == end\<close> is false. A lone quote as the last byte returns the cursor
  \<open>end + 1\<close>; any longer unterminated literal reads the byte at \<open>end\<close>.
\<close>

lemma unterminated_char_literal_overruns:
  assumes "b < length buf" "buf ! b = CHR 0x27" "CHR 0x27 \<notin> set (drop (Suc b) buf)"
  shows "lexer_parse_char_literal lexer buf b (length buf) =
    (if Suc b = length buf then Inr (lexer, Suc (length buf)) else Inl OutOfBounds)"
proof -
  have first: "find_if buf b (length buf) (\<lambda>c. c = CHR 0x27) = b"
    using assms(1,2) by (simp add: find_if_at)
  have lst: "find_if buf (Suc b) (length buf) (\<lambda>c. c = CHR 0x27) = length buf"
    using assms(1,3) by (intro find_if_absent) auto
  from assms(1) have ne: "b \<noteq> length buf" by simp
  show ?thesis
    using assms(1)
    by (auto simp add: lexer_parse_char_literal_def first lst ne sv_end_def sv_in_bounds_def
        Let_def)
qed

text \<open>
  C4, at the input the claim names. On the one-byte buffer holding a lone quote,
  \<open>lexer_parse_char_literal\<close> returns the cursor 2, one past the end of the buffer, and
  the tokenizer then reads outside the buffer. On a longer unterminated literal the routine
  reads the byte at \<open>end\<close> while it counts the bytes of the literal.
\<close>

theorem C4_unterminated_char_literal:
  "lexer_parse_char_literal lexer [CHR 0x27] 0 1 = Inr (lexer, 2)
   \<and> lexer_tokenize_text [CHR 0x27] = Some (Inl OutOfBounds)
   \<and> lexer_parse_char_literal lexer [CHR 0x27, CHR ''a'', CHR '' '', CHR ''b''] 0 4 =
       Inl OutOfBounds"
proof -
  have "lexer_parse_char_literal lexer [CHR 0x27] 0 1 = Inr (lexer, 2)"
    by (simp add: lexer_parse_char_literal_def search_defs view_defs)
  moreover have "lexer_tokenize_text [CHR 0x27] = Some (Inl OutOfBounds)"
    by (simp add: lexer_loop.simps lexer_defs)
  moreover have "lexer_parse_char_literal lexer [CHR 0x27, CHR ''a'', CHR '' '', CHR ''b''] 0 4
      = Inl OutOfBounds"
    by (simp add: lexer_parse_char_literal_def search_defs view_defs)
  ultimately show ?thesis by simp
qed

text \<open>
  C5, at the input the claim names. Tokenizing the three bytes quote, \<open>a\<close>, quote yields
  no token: the closing quote is the last byte, the end of the literal equals the end of
  the buffer, and the routine takes the branch written for a missing closing quote. With
  one more byte after the closing quote the same literal is one CharConstant token of 3
  bytes.
\<close>

theorem C5_closing_quote_at_end_of_buffer:
  "lexer_tokenize_text [CHR 0x27, CHR ''a'', CHR 0x27] = Some (Inr [])
   \<and> lexer_tokenize_text [CHR 0x27, CHR ''a'', CHR 0x27, CHR '' ''] =
       Some (Inr [mk_token CharConstant 0 3])"
proof -
  have "lexer_tokenize_text [CHR 0x27, CHR ''a'', CHR 0x27] = Some (Inr [])"
    by (simp add: lexer_loop.simps lexer_defs)
  moreover have "lexer_tokenize_text [CHR 0x27, CHR ''a'', CHR 0x27, CHR '' ''] =
       Some (Inr [mk_token CharConstant 0 3])"
    by (simp add: lexer_loop.simps lexer_defs)
  ultimately show ?thesis by simp
qed

section \<open>Numeric classification\<close>

text \<open>
  C6. \<open>42\<close> and \<open>0x1F\<close> are one IntegerConstant token each, \<open>3.14\<close> and \<open>3.14f\<close> one
  FloatConstant token each. For \<open>0x1.5\<close> the integer scan stops at the \<open>.\<close> through the
  branch that reports nothing, not through the branch for an invalid digit; the run is
  not an integer, and what \<open>lexer_parse_constant\<close> emits is what \<open>is_float\<close> decides.
  (The float rule rejects the run as well, at the \<open>x\<close>, so no token is emitted.)
\<close>

theorem C6_numeric_classification:
  "lexer_tokenize_text ''42'' = Some (Inr [mk_token IntegerConstant 0 2])
   \<and> lexer_tokenize_text ''0x1F'' = Some (Inr [mk_token IntegerConstant 0 4])
   \<and> lexer_tokenize_text ''3.14'' = Some (Inr [mk_token FloatConstant 0 4])
   \<and> lexer_tokenize_text ''3.14f'' = Some (Inr [mk_token FloatConstant 0 5])
   \<and> integer_verdict_of ''0x1.5'' = StoppedAtDot
   \<and> \<not> is_integer ''0x1.5''
   \<and> lexer_parse_constant lexer ''0x1.5'' 0 5 =
       Inr (if is_float ''0x1.5'' then add_token lexer FloatConstant \<lparr>sv_data = 0, sv_size = 5\<rparr>
            else lexer, 5)
   \<and> lexer_tokenize_text ''0x1.5'' = Some (Inr [])"
proof -
  have "lexer_tokenize_text ''42'' = Some (Inr [mk_token IntegerConstant 0 2])"
    by (simp add: lexer_loop.simps lexer_defs)
  moreover have "lexer_tokenize_text ''0x1F'' = Some (Inr [mk_token IntegerConstant 0 4])"
    by (simp add: lexer_loop.simps lexer_defs)
  moreover have "lexer_tokenize_text ''3.14'' = Some (Inr [mk_token FloatConstant 0 4])"
    by (simp add: lexer_loop.simps lexer_defs)
  moreover have "lexer_tokenize_text ''3.14f'' = Some (Inr [mk_token FloatConstant 0 5])"
    by (simp add: lexer_loop.simps lexer_defs)
  moreover have "integer_verdict_of ''0x1.5'' = StoppedAtDot"
    by (simp add: integer_verdict_of_def has_hex_prefix_def classifier_defs)
  moreover have "\<not> is_integer ''0x1.5''"
    by (simp add: is_integer_def integer_verdict_of_def has_hex_prefix_def classifier_defs)
  moreover have "lexer_parse_constant lexer ''0x1.5'' 0 5 =
       Inr (if is_float ''0x1.5'' then add_token lexer FloatConstant \<lparr>sv_data = 0, sv_size = 5\<rparr>
            else lexer, 5)"
    by (simp add: scan_defs search_defs view_defs classifier_defs)
  moreover have "lexer_tokenize_text ''0x1.5'' = Some (Inr [])"
    by (simp add: lexer_loop.simps lexer_defs)
  ultimately show ?thesis by simp
qed

section \<open>Identifiers and reserved words\<close>

lemma is_alpha_not_digit: "is_alpha c \<Longrightarrow> \<not> is_digit c"
  by (auto simp: is_alpha_def is_digit_def less_eq_char_def)

lemma is_alpha_not_constant: "is_alpha c \<Longrightarrow> \<not> is_constant c"
  using is_alpha_not_digit[of c] by (auto simp: is_constant_def is_alpha_def)

lemma is_white_not_constant: "is_white c \<Longrightarrow> \<not> is_constant c"
  by (auto simp: classifier_defs)

lemma is_white_not_alphanum: "is_white c \<Longrightarrow> \<not> is_alphanum c"
  by (auto simp: classifier_defs)

text \<open>
  The loop over a table whose texts are pairwise distinct adds at most one token: the
  one of the entry whose text is the run.
\<close>

lemma fold_reserved_step:
  "distinct (map snd tbl) \<Longrightarrow>
   fold (reserved_step buf token) tbl (lx, r) =
     (case map_of (map (\<lambda>(k, t). (t, k)) tbl) (sv_text buf token) of
        Some k \<Rightarrow> (add_token lx k token, True)
      | None \<Rightarrow> (lx, r))"
proof (induction tbl arbitrary: lx r)
  case Nil
  then show ?case by simp
next
  case (Cons e tbl)
  obtain k t where e: "e = (k, t)" by (cases e)
  from Cons.prems have dist: "distinct (map snd tbl)" and fresh: "t \<notin> snd ` set tbl"
    by (simp_all add: e)
  show ?case
  proof (cases "sv_text buf token = t")
    case True
    have "map_of (map (\<lambda>(k, t). (t, k)) tbl) t = None"
      using fresh by (force simp: map_of_eq_None_iff)
    then show ?thesis
      using True Cons.IH[OF dist] by (simp add: e reserved_step_def)
  next
    case False
    then show ?thesis
      using Cons.IH[OF dist] by (simp add: e reserved_step_def)
  qed
qed

lemma reserved_names_distinct: "distinct (map snd TOKEN_RESERVED_NAMES)"
  by (simp add: TOKEN_RESERVED_NAMES_def)

lemma is_identifier_run:
  assumes "it < length buf" "is_alpha (buf ! it)"
  shows "is_identifier (takeWhile is_alphanum (drop it buf))"
proof -
  have d: "drop it buf = buf ! it # drop (Suc it) buf"
    using assms(1) by (simp add: Cons_nth_drop_Suc)
  have "list_all is_alphanum (takeWhile is_alphanum (drop (Suc it) buf))"
    by (auto simp: list_all_iff dest: set_takeWhileD)
  then show ?thesis
    using assms(2) by (simp add: d is_identifier_def is_alphanum_def)
qed

lemma lexer_parse_identifier_run:
  assumes "it < length buf" "is_alpha (buf ! it)"
  shows "lexer_parse_identifier lexer buf it (length buf) =
    Inr (add_token lexer (spec_identifier_kind (takeWhile is_alphanum (drop it buf)))
           \<lparr>sv_data = it, sv_size = length (takeWhile is_alphanum (drop it buf))\<rparr>,
         it + length (takeWhile is_alphanum (drop it buf)))"
proof -
  let ?run = "takeWhile is_alphanum (drop it buf)"
  let ?token = "\<lparr>sv_data = it, sv_size = length ?run\<rparr>"
  have tok: "find_next_token_if buf it (length buf) is_alphanum = Some ?token"
    using assms by (simp add: find_next_token_if_at is_alphanum_def)
  have view: "sv_text buf ?token = ?run"
    by (simp add: sv_text_def takeWhile_eq_take[symmetric])
  have ident: "is_identifier (sv_text buf ?token)"
    using is_identifier_run[OF assms] by (simp add: view)
  have folded: "fold (reserved_step buf ?token) TOKEN_RESERVED_NAMES (lexer, False) =
      (case reserved_lookup ?run of Some k \<Rightarrow> (add_token lexer k ?token, True)
       | None \<Rightarrow> (lexer, False))"
    using fold_reserved_step[OF reserved_names_distinct, of buf ?token lexer False]
    by (simp add: view reserved_lookup_def)
  from assms(1) have ne: "it \<noteq> length buf" by simp
  show ?thesis
    unfolding lexer_parse_identifier_def
    by (simp add: ne tok ident folded sv_end_def spec_identifier_kind_def Let_def
        split: option.splits)
qed

text \<open>
  C9. \<open>iffy\<close> is one Identifier token of 4 bytes and \<open>if\<close> is the keyword token. In
  general, at a cursor on an alphabetic byte the loop calls \<open>lexer_parse_identifier\<close>,
  which takes the maximal alphanumeric run from the cursor, adds exactly one token spanning
  the run, and moves the cursor to the end of the run; the token's kind is the keyword
  whose table text equals the run, and Identifier when no table text does.
\<close>

theorem C9_keyword_identifier_boundary:
  "lexer_tokenize_text ''iffy'' = Some (Inr [mk_token Identifier 0 4])
   \<and> lexer_tokenize_text ''if'' = Some (Inr [mk_token If_tok 0 2])
   \<and> (it < length buf \<and> is_alpha (buf ! it) \<longrightarrow>
        lexer_parse_identifier lexer buf it (length buf) =
          Inr (add_token lexer (spec_identifier_kind (takeWhile is_alphanum (drop it buf)))
                 \<lparr>sv_data = it, sv_size = length (takeWhile is_alphanum (drop it buf))\<rparr>,
               it + length (takeWhile is_alphanum (drop it buf)))
        \<and> sv_text buf \<lparr>sv_data = it, sv_size = length (takeWhile is_alphanum (drop it buf))\<rparr>
            = takeWhile is_alphanum (drop it buf)
        \<and> lexer_step buf (lexer, it) =
          Inr (add_token lexer (spec_identifier_kind (takeWhile is_alphanum (drop it buf)))
                 \<lparr>sv_data = it, sv_size = length (takeWhile is_alphanum (drop it buf))\<rparr>,
               it + length (takeWhile is_alphanum (drop it buf))))"
proof (intro conjI impI)
  show "lexer_tokenize_text ''iffy'' = Some (Inr [mk_token Identifier 0 4])"
    by (simp add: lexer_loop.simps lexer_defs)
  show "lexer_tokenize_text ''if'' = Some (Inr [mk_token If_tok 0 2])"
    by (simp add: lexer_loop.simps lexer_defs)
next
  assume h: "it < length buf \<and> is_alpha (buf ! it)"
  then show "lexer_parse_identifier lexer buf it (length buf) =
          Inr (add_token lexer (spec_identifier_kind (takeWhile is_alphanum (drop it buf)))
                 \<lparr>sv_data = it, sv_size = length (takeWhile is_alphanum (drop it buf))\<rparr>,
               it + length (takeWhile is_alphanum (drop it buf)))"
    by (simp add: lexer_parse_identifier_run)
  show "sv_text buf \<lparr>sv_data = it, sv_size = length (takeWhile is_alphanum (drop it buf))\<rparr>
            = takeWhile is_alphanum (drop it buf)"
    by (simp add: sv_text_def takeWhile_eq_take[symmetric])
  show "lexer_step buf (lexer, it) =
          Inr (add_token lexer (spec_identifier_kind (takeWhile is_alphanum (drop it buf)))
                 \<lparr>sv_data = it, sv_size = length (takeWhile is_alphanum (drop it buf))\<rparr>,
               it + length (takeWhile is_alphanum (drop it buf)))"
    using h is_alpha_not_constant[of "buf ! it"] lexer_parse_identifier_run[of it buf lexer]
    by (simp add: lexer_step_def is_alphanum_def Let_def)
qed

text \<open>
  C9 at two buffers: in \<open>do x\<close> the run \<open>do\<close> is the keyword Do; in \<open>dot\<close> the run is
  the whole buffer and an Identifier, not Do followed by \<open>t\<close>.
\<close>

theorem C9_keyword_identifier_boundary_witness:
  "0 < length ''do x'' \<and> is_alpha (''do x'' ! 0)
   \<and> lexer_parse_identifier \<lparr>tokens = []\<rparr> ''do x'' 0 (length ''do x'') =
       Inr (\<lparr>tokens = [mk_token Do 0 2]\<rparr>, 2)
   \<and> 0 < length ''dot'' \<and> is_alpha (''dot'' ! 0)
   \<and> lexer_parse_identifier \<lparr>tokens = []\<rparr> ''dot'' 0 (length ''dot'') =
       Inr (\<lparr>tokens = [mk_token Identifier 0 3]\<rparr>, 3)"
  using C9_keyword_identifier_boundary[where it=0 and buf="''do x''" and lexer="\<lparr>tokens = []\<rparr>"]
    C9_keyword_identifier_boundary[where it=0 and buf="''dot''" and lexer="\<lparr>tokens = []\<rparr>"]
  by (simp add: spec_identifier_kind_def reserved_lookup_def TOKEN_RESERVED_NAMES_def
      classifier_defs view_defs)

section \<open>The two tables\<close>

lemma lexer_step_at_end: "lexer_step buf (lexer, length buf) = Inl (Inr (tokens lexer))"
  by (simp add: lexer_step_def)

text \<open>A buffer that is one word is one token, of the kind the reserved-word rule gives.\<close>

lemma tokenize_single_word:
  assumes "t \<noteq> []" "is_alpha (hd t)" "list_all is_alphanum t"
  shows "lexer_tokenize_text t = Some (Inr [mk_token (spec_identifier_kind t) 0 (length t)])"
proof -
  from assms(1,2) have len: "0 < length t" and a0: "is_alpha (t ! 0)"
    by (simp_all add: hd_conv_nth)
  have run: "takeWhile is_alphanum t = t"
    using assms(3) by (simp add: list_all_iff)
  have s1: "lexer_step t (\<lparr>tokens = []\<rparr>, 0) =
      Inr (add_token \<lparr>tokens = []\<rparr> (spec_identifier_kind t) \<lparr>sv_data = 0, sv_size = length t\<rparr>,
           length t)"
    using len a0 is_alpha_not_constant[OF a0]
      lexer_parse_identifier_run[OF len a0, of "\<lparr>tokens = []\<rparr>"]
    by (simp add: lexer_step_def run is_alphanum_def Let_def)
  show ?thesis
    unfolding lexer_tokenize_text_def
    by (subst lexer_loop.simps, simp add: s1, subst lexer_loop.simps)
       (simp add: lexer_step_at_end add_token_def mk_token_def)
qed

text \<open>A buffer of separators only (blanks and the bytes of \<open>is_special\<close>) has no token.\<close>

lemma tokenize_separators_only:
  assumes "list_all is_white t"
  shows "lexer_tokenize_text t = Some (Inr [])"
proof (cases t)
  case Nil
  then show ?thesis
    by (simp add: lexer_tokenize_text_def lexer_loop.simps lexer_step_def)
next
  case (Cons c cs)
  with assms have w: "is_white c" and ws: "list_all is_white cs" by simp_all
  have tw: "takeWhile is_white cs = cs"
    using ws by (simp add: list_all_iff)
  have "find_next_token (c # cs) 0 (length (c # cs)) = None"
    using w by (simp add: find_next_token_def find_next_token_if_def find_if_def tw)
  then have "lexer_step (c # cs) (\<lparr>tokens = []\<rparr>, 0) = Inl (Inr [])"
    using is_white_not_constant[OF w] is_white_not_alphanum[OF w]
    by (simp add: lexer_step_def)
  then show ?thesis
    by (simp add: Cons lexer_tokenize_text_def lexer_loop.simps)
qed

lemma reserved_names_are_words:
  "list_all (\<lambda>(k, t). t \<noteq> [] \<and> is_alpha (hd t) \<and> list_all is_alphanum t
      \<and> spec_identifier_kind t = k) TOKEN_RESERVED_NAMES"
  by (simp add: TOKEN_RESERVED_NAMES_def spec_identifier_kind_def reserved_lookup_def
      is_alphanum_def is_alpha_def is_digit_def)

text \<open>
  The entries of the symbol table with a byte outside \<open>is_special\<close> are the string mark,
  the character mark and the dot.
\<close>

lemma symbols_not_special:
  "map fst (filter (\<lambda>(k, t). \<not> list_all is_special t) TOKEN_SYMBOLS) =
     [StringMark, CharMark, Dot]"
  by (simp add: TOKEN_SYMBOLS_def is_special_def)

text \<open>
  C1, as the code has it. For every pair of the reserved-word table, tokenizing the text
  by itself yields exactly one token, of the pair's kind, whose span reproduces the text.
  For every pair of the symbol table whose text is made of \<open>is_special\<close> bytes (all pairs
  but the string mark, the character mark and the dot), tokenizing the text by itself
  yields no token.
\<close>

theorem C1_table_round_trip:
  "((k, t) \<in> set TOKEN_RESERVED_NAMES \<longrightarrow>
       lexer_tokenize_text t = Some (Inr [mk_token k 0 (length t)])
       \<and> sv_text t (tok_data (mk_token k 0 (length t))) = t)
   \<and> ((k, t) \<in> set TOKEN_SYMBOLS \<and> list_all is_special t \<longrightarrow>
       lexer_tokenize_text t = Some (Inr []))"
proof (intro conjI impI)
  assume "(k, t) \<in> set TOKEN_RESERVED_NAMES"
  with reserved_names_are_words
  have w: "t \<noteq> []" "is_alpha (hd t)" "list_all is_alphanum t" "spec_identifier_kind t = k"
    by (auto simp: list_all_iff)
  from tokenize_single_word[OF w(1,2,3)] w(4)
  show "lexer_tokenize_text t = Some (Inr [mk_token k 0 (length t)])" by simp
  show "sv_text t (tok_data (mk_token k 0 (length t))) = t"
    by (simp add: sv_text_def mk_token_def)
next
  assume "(k, t) \<in> set TOKEN_SYMBOLS \<and> list_all is_special t"
  then have "list_all is_white t"
    by (simp add: list_all_iff is_white_def)
  then show "lexer_tokenize_text t = Some (Inr [])"
    by (rule tokenize_separators_only)
qed

text \<open>C1 at the keyword \<open>while\<close> and at the operator \<open><<=\<close>.\<close>

theorem C1_table_round_trip_witness:
  "(While, ''while'') \<in> set TOKEN_RESERVED_NAMES
   \<and> lexer_tokenize_text ''while'' = Some (Inr [mk_token While 0 (length ''while'')])
   \<and> sv_text ''while'' (tok_data (mk_token While 0 (length ''while''))) = ''while''
   \<and> (BitwiseLeftShiftAssign, ''<<='') \<in> set TOKEN_SYMBOLS
   \<and> list_all is_special ''<<=''
   \<and> lexer_tokenize_text ''<<='' = Some (Inr [])"
  using C1_table_round_trip[of While "''while''"]
    C1_table_round_trip[of BitwiseLeftShiftAssign "''<<=''"]
  by (simp add: TOKEN_RESERVED_NAMES_def TOKEN_SYMBOLS_def is_special_def)

text \<open>
  C1, as the claim states it, fails at the first pair of the symbol table: tokenizing
  \<open>++\<close> yields no token, not the one token Increment.
\<close>

theorem C1_symbol_round_trip_counterexample:
  "(Increment, ''++'') \<in> set TOKEN_SYMBOLS
   \<and> lexer_tokenize_text ''++'' = Some (Inr [])
   \<and> lexer_tokenize_text ''++'' \<noteq> Some (Inr [mk_token Increment 0 2])"
proof -
  have "lexer_tokenize_text ''++'' = Some (Inr [])"
    by (rule tokenize_separators_only) (simp add: is_white_def is_special_def)
  then show ?thesis by (simp add: TOKEN_SYMBOLS_def)
qed

section \<open>Expression factories\<close>

text \<open>
  C8. The node \<open>ParenExpr::create\<close> returns has the value category and the type of the
  inner expression, starts at the left parenthesis and ends one past the right one. In
  particular a parenthesised integer literal is an RValue of the literal's type.
\<close>

theorem C8_paren_expr:
  "value_kind (ParenExpr_create e l r) = value_kind e
   \<and> expr_type (ParenExpr_create e l r) = expr_type e
   \<and> begin_loc (ParenExpr_create e l r) = l
   \<and> end_loc (ParenExpr_create e l r) = r + 1
   \<and> expr_class (ParenExpr_create e l r) = ParenExpr
   \<and> sub_expr (ParenExpr_create e l r) = e
   \<and> value_kind (ParenExpr_create (IntegerLiteral_create n t sp) l r) = RValue
   \<and> expr_type (ParenExpr_create (IntegerLiteral_create n t sp) l r) = t"
  by (simp add: ParenExpr_create_def IntegerLiteral_create_def value_kind_def expr_type_def
      begin_loc_def end_loc_def expr_class_def sub_expr_def)

text \<open>
  C7. \<open>ArraySubscriptExpr::create\<close> ends with the contract fault, and returns no node,
  when the type of the base is not a pointer type or the type of the index is one. When
  the base has a pointer type and the index has not, it returns the node whose span runs
  from the start of the base to one past the right bracket.
\<close>

theorem C7_array_subscript_precondition:
  "(\<not> is_pointer (expr_type b) \<or> is_pointer (expr_type i) \<longrightarrow>
      ArraySubscriptExpr_create is_pointer b i v t lb rb = Inl ContractViolation)
   \<and> (is_pointer (expr_type b) \<and> \<not> is_pointer (expr_type i) \<longrightarrow>
      ArraySubscriptExpr_create is_pointer b i v t lb rb =
        Inr (Expr ArraySubscript v t \<lparr>span_start = begin_loc b, span_end = rb + 1\<rparr>
               (ArraySubscriptExpr_members b i lb)))"
  by (auto simp add: ArraySubscriptExpr_create_def cci_expects_def)

text \<open>
  The two cases of C7 at concrete nodes, with types written as strings and \<open>int*\<close> the
  pointer type: an \<open>int\<close> base is refused; an \<open>int*\<close> base at bytes 0 to 1 with an
  \<open>int\<close> index and the right bracket at byte 3 gives a node that ends at byte 4.
\<close>

theorem C7_array_subscript_precondition_witness:
  "\<not> (expr_type (IntegerLiteral_create 7 ''int'' \<lparr>span_start = 0::nat, span_end = 1\<rparr>) = ''int*'')
   \<and> ArraySubscriptExpr_create (\<lambda>t. t = ''int*'')
        (IntegerLiteral_create 7 ''int'' \<lparr>span_start = 0::nat, span_end = 1\<rparr>)
        (IntegerLiteral_create 2 ''int'' \<lparr>span_start = 2, span_end = 3\<rparr>)
        LValue ''int'' 1 3 = Inl ContractViolation
   \<and> expr_type (Expr ImplicitCast RValue ''int*'' \<lparr>span_start = 0::nat, span_end = 1\<rparr>
        (IntegerLiteral_members 0)) = ''int*''
   \<and> \<not> (expr_type (IntegerLiteral_create 2 ''int'' \<lparr>span_start = 2::nat, span_end = 3\<rparr>) = ''int*'')
   \<and> ArraySubscriptExpr_create (\<lambda>t. t = ''int*'')
        (Expr ImplicitCast RValue ''int*'' \<lparr>span_start = 0::nat, span_end = 1\<rparr>
           (IntegerLiteral_members 0))
        (IntegerLiteral_create 2 ''int'' \<lparr>span_start = 2, span_end = 3\<rparr>)
        LValue ''int'' 1 3 =
       Inr (Expr ArraySubscript LValue ''int'' \<lparr>span_start = 0, span_end = 4\<rparr>
             (ArraySubscriptExpr_members
               (Expr ImplicitCast RValue ''int*'' \<lparr>span_start = 0::nat, span_end = 1\<rparr>
                  (IntegerLiteral_members 0))
               (IntegerLiteral_create 2 ''int'' \<lparr>span_start = 2, span_end = 3\<rparr>) 1))"
  using C7_array_subscript_precondition[of "\<lambda>t. t = ''int*''"
      "IntegerLiteral_create 7 ''int'' \<lparr>span_start = 0::nat, span_end = 1\<rparr>"
      "IntegerLiteral_create 2 ''int'' \<lparr>span_start = 2, span_end = 3\<rparr>" LValue "''int''" 1 3]
    C7_array_subscript_precondition[of "\<lambda>t. t = ''int*''"
      "Expr ImplicitCast RValue ''int*'' \<lparr>span_start = 0::nat, span_end = 1\<rparr>
         (IntegerLiteral_members 0)"
      "IntegerLiteral_create 2 ''int'' \<lparr>span_start = 2, span_end = 3\<rparr>" LValue "''int''" 1 3]
  by (simp add: expr_type_def IntegerLiteral_create_def begin_loc_def)

end
